theory Spec2Isabelle
  imports Main "HOL-Library.Word"
begin

unbundle bit_operations_syntax

section \<open>Machine types\<close>

text \<open>
  The fixed-width C types of \<^verbatim>\<open>system.cpp\<close>. \<^verbatim>\<open>DWORD\<close> is an unsigned 32-bit value,
  \<^verbatim>\<open>int\<close> a 32-bit two's complement value (read with \<open>sint\<close>), \<^verbatim>\<open>long\<close> (LP64 Unix)
  and \<^verbatim>\<open>int64_t\<close> 64-bit two's complement values. \<^verbatim>\<open>ULONG_PTR\<close> has the width of a
  pointer, 32 bits under \<^verbatim>\<open>_WIN32\<close> and 64 under \<^verbatim>\<open>_WIN64\<close>: it is \<open>'a word\<close> with
  the width \<open>LENGTH('a)\<close> left open, so that \<^verbatim>\<open>sizeof(ULONG_PTR) * 8\<close> is \<open>LENGTH('a)\<close>.
\<close>

type_synonym DWORD = "32 word"
type_synonym c_int = "32 word"
type_synonym c_long = "64 word"
type_synonym int64_t = "64 word"

section \<open>Internals::CountSetBits\<close>

text \<open>
  The \<^verbatim>\<open>for\<close> loop of \<^verbatim>\<open>CountSetBits\<close>: \<^verbatim>\<open>i\<close> runs from 0 to \<^verbatim>\<open>dwLeftShift\<close> inclusive,
  each round adds 1 to the count when \<^verbatim>\<open>pBitMask & pBitTest\<close> is non-zero and halves
  \<^verbatim>\<open>pBitTest\<close>. The counter \<^verbatim>\<open>i\<close> and the bound \<^verbatim>\<open>dwLeftShift\<close> are natural numbers
  (they stay below the width of the mask); the count is a \<^verbatim>\<open>DWORD\<close>.
\<close>

function CountSetBits_loop :: "nat \<Rightarrow> nat \<Rightarrow> 'a::len word \<Rightarrow> 'a word \<Rightarrow> DWORD \<Rightarrow> DWORD" where
  "CountSetBits_loop i dwLeftShift pBitMask pBitTest dwBitSetCount =
     (if i \<le> dwLeftShift
      then CountSetBits_loop (i + 1) dwLeftShift pBitMask (pBitTest div 2)
             (dwBitSetCount + (if pBitMask AND pBitTest \<noteq> 0 then 1 else 0))
      else dwBitSetCount)"
  by pat_completeness auto
termination
  by (relation "measure (\<lambda>(i, dwLeftShift, _). Suc dwLeftShift - i)") auto

definition CountSetBits :: "'a::len word \<Rightarrow> DWORD" where
  "CountSetBits pBitMask =
     (let dwLeftShift = LENGTH('a) - 1;
          pBitTest = push_bit dwLeftShift (1 :: 'a word)
      in CountSetBits_loop 0 dwLeftShift pBitMask pBitTest 0)"

section \<open>Text: character classes, the two regular expressions, atoi\<close>

text \<open>
  \<^verbatim>\<open>std::regex\<close> is used with its default ECMAScript grammar: \<^verbatim>\<open>\s\<close> is the class of
  the C locale's \<^verbatim>\<open>isspace\<close>, and \<^verbatim>\<open>.\<close> is any character but a line terminator.
\<close>

definition isspace :: "char \<Rightarrow> bool" where
  "isspace c = (c = CHR '' '' \<or> c = CHR 0x09 \<or> c = CHR 0x0A \<or> c = CHR 0x0B \<or> c = CHR 0x0C \<or> c = CHR 0x0D)"

definition line_terminator :: "char \<Rightarrow> bool" where
  "line_terminator c = (c = CHR 0x0A \<or> c = CHR 0x0D)"

definition isdigit :: "char \<Rightarrow> bool" where
  "isdigit c = (48 \<le> (of_char c :: nat) \<and> (of_char c :: nat) \<le> 57)"

text \<open>
  \<^verbatim>\<open>std::regex_match(s, matches, pattern)\<close> for the two patterns of the file,
  \<^verbatim>\<open>"model name\\s*: (.*)"\<close> and \<^verbatim>\<open>"cpu MHz\\s*: (.*)"\<close>, with the field name as a
  parameter. \<^verbatim>\<open>regex_match\<close> succeeds only when the pattern matches the whole of \<open>s\<close>:
  \<open>s\<close> starts with the name, then comes a run of white space, then a colon and one blank,
  and everything after that, up to the end of \<open>s\<close>, is the capture group and holds no
  line terminator. The result is \<^verbatim>\<open>matches[1]\<close>, or \<open>None\<close> when there is no match. The
  greedy run \<^verbatim>\<open>\s*\<close> needs no backtracking, since a colon is not white space
  (lemma \<open>regex_match_field_iff\<close> below gives the language matched).
\<close>

definition regex_match_field :: "string \<Rightarrow> string \<Rightarrow> string option" where
  "regex_match_field name s =
     (if take (length name) s = name
      then (case dropWhile isspace (drop (length name) s) of
              c1 # c2 # rest \<Rightarrow>
                if c1 = CHR '':'' \<and> c2 = CHR '' '' \<and> \<not> list_ex line_terminator rest
                then Some rest else None
            | _ \<Rightarrow> None)
      else None)"

text \<open>
  \<^verbatim>\<open>atoi\<close>: white space is skipped, then an optional sign, then the decimal digits up to
  the first other character; no digits give 0. C leaves a value out of range undefined;
  the model follows glibc, whose \<^verbatim>\<open>atoi\<close> is \<^verbatim>\<open>(int) strtol(s, NULL, 10)\<close>: \<^verbatim>\<open>strtol\<close>
  saturates at the bounds of \<^verbatim>\<open>long\<close> and the cast keeps the low 32 bits.
\<close>

fun digits_value :: "int \<Rightarrow> string \<Rightarrow> int" where
  "digits_value acc [] = acc"
| "digits_value acc (c # cs) =
     (if isdigit c then digits_value (acc * 10 + (int (of_char c) - 48)) cs else acc)"

definition strtol :: "string \<Rightarrow> int" where
  "strtol s =
     (case dropWhile isspace s of
        [] \<Rightarrow> 0
      | c # cs \<Rightarrow>
          if c = CHR ''-'' then max (- (2 ^ 63)) (- digits_value 0 cs)
          else if c = CHR ''+'' then min (2 ^ 63 - 1) (digits_value 0 cs)
          else min (2 ^ 63 - 1) (digits_value 0 (c # cs)))"

definition atoi :: "string \<Rightarrow> c_int" where
  "atoi s = word_of_int (strtol s)"

text \<open>
  \<^verbatim>\<open>std::string(pBuffer)\<close> on a character array: the characters before the first NUL.
\<close>

definition c_str :: "string \<Rightarrow> string" where
  "c_str buf = takeWhile (\<lambda>c. c \<noteq> CHR 0x00) buf"

section \<open>The operating system as the code sees it\<close>

subsection \<open>Windows\<close>

text \<open>
  The registry key \<^verbatim>\<open>HARDWARE\DESCRIPTION\System\CentralProcessor\0\<close>. Each field is the
  outcome of the one \<^verbatim>\<open>RegQueryValueEx\<close> call the code makes for that value: \<open>None\<close> is any
  result other than \<^verbatim>\<open>ERROR_SUCCESS\<close> (a missing value, or \<^verbatim>\<open>ERROR_MORE_DATA\<close> when the
  data does not fit the buffer), \<open>Some\<close> carries the data copied into the buffer.
\<close>

record reg_key =
  ProcessorNameString :: "string option"
  MHz :: "DWORD option"

definition MAX_PATH :: nat where
  "MAX_PATH = 260"

text \<open>
  \<^verbatim>\<open>CHAR pBuffer[_MAX_PATH] = { 0 }\<close> after a successful query: the data, followed by the
  zeros the array was initialised with.
\<close>

definition filled_buffer :: "string \<Rightarrow> string" where
  "filled_buffer data = take MAX_PATH data @ replicate (MAX_PATH - length data) (CHR 0x00)"

text \<open>
  \<^verbatim>\<open>LOGICAL_PROCESSOR_RELATIONSHIP\<close> of \<^verbatim>\<open>winnt.h\<close>, and the two members of
  \<^verbatim>\<open>SYSTEM_LOGICAL_PROCESSOR_INFORMATION\<close> that the code reads. The type parameter is
  \<^verbatim>\<open>ULONG_PTR\<close>, a \<open>32 word\<close> or a \<open>64 word\<close>.
\<close>

datatype LOGICAL_PROCESSOR_RELATIONSHIP =
    RelationProcessorCore
  | RelationNumaNode
  | RelationCache
  | RelationProcessorPackage
  | RelationGroup
  | RelationProcessorDie
  | RelationNumaNodeEx
  | RelationProcessorModule
  | RelationAll

datatype 'ulong_ptr SYSTEM_LOGICAL_PROCESSOR_INFORMATION =
  SLPI (Relationship: LOGICAL_PROCESSOR_RELATIONSHIP) (ProcessorMask: 'ulong_ptr)

text \<open>
  One call of \<^verbatim>\<open>GetLogicalProcessorInformation(pBuffer, &dwLength)\<close> as the allocation
  loop sees it: the call succeeds and the buffer holds these entries; or it fails with
  \<^verbatim>\<open>ERROR_INSUFFICIENT_BUFFER\<close>, and the \<^verbatim>\<open>malloc\<close> that follows gives a buffer or
  \<^verbatim>\<open>NULL\<close>; or it fails with another error.
\<close>

datatype malloc_result = Allocated | OutOfMemory

datatype 'ulong_ptr glpi_reply =
    Filled "'ulong_ptr SYSTEM_LOGICAL_PROCESSOR_INFORMATION list"
  | InsufficientBuffer malloc_result
  | OtherError

record MEMORYSTATUSEX =
  ullTotalPhys :: "64 word"
  ullAvailPhys :: "64 word"

text \<open>
  \<open>RegOpenKeyEx\<close> is the outcome of opening the key (\<open>None\<close>: not \<^verbatim>\<open>ERROR_SUCCESS\<close>).
  \<open>glpi_replies\<close> is what the successive calls of \<^verbatim>\<open>GetLogicalProcessorInformation\<close>
  answer. \<open>GlobalMemoryStatusEx\<close> is \<open>Some\<close> of the structure the call fills in, or \<open>None\<close>
  when the call fails and writes nothing; \<open>uninitialised_status\<close> is what the local
  variable \<^verbatim>\<open>status\<close>, declared without an initialiser, holds before the call.
\<close>

record 'ulong_ptr win_host =
  RegOpenKeyEx :: "reg_key option"
  glpi_replies :: "'ulong_ptr glpi_reply list"
  GlobalMemoryStatusEx :: "MEMORYSTATUSEX option"
  uninitialised_status :: MEMORYSTATUSEX

subsection \<open>Unix\<close>

record struct_sysinfo =
  totalram :: "64 word"
  freeram :: "64 word"

text \<open>
  \<open>proc_cpuinfo\<close> is the content of \<^verbatim>\<open>/proc/cpuinfo\<close>, or \<open>None\<close> when the file cannot be
  opened. \<open>sysconf_NPROCESSORS_ONLN\<close> is what \<^verbatim>\<open>sysconf(_SC_NPROCESSORS_ONLN)\<close> returns,
  a \<^verbatim>\<open>long\<close>. \<open>sysinfo\<close> is \<open>Some\<close> of the structure when \<^verbatim>\<open>sysinfo(&si)\<close> returns 0.
\<close>

record unix_host =
  proc_cpuinfo :: "string option"
  sysconf_NPROCESSORS_ONLN :: c_long
  sysinfo :: "struct_sysinfo option"

text \<open>The two branches of the conditional compilation.\<close>

datatype 'ulong_ptr host = Windows "'ulong_ptr win_host" | Unix unix_host

section \<open>The functions of System\<close>

text \<open>
  \<^verbatim>\<open>std::ifstream stream("/proc/cpuinfo")\<close> read to its end through
  \<^verbatim>\<open>std::istreambuf_iterator\<close>: a stream that failed to open yields the empty string.
\<close>

definition read_stream :: "string option \<Rightarrow> string" where
  "read_stream file = (case file of None \<Rightarrow> [] | Some content \<Rightarrow> content)"

text \<open>
  \<^verbatim>\<open>System::CpuArchitecture\<close>. On Windows the result is \<^verbatim>\<open>std::string(pBuffer)\<close>; a value
  that fills all of \<^verbatim>\<open>pBuffer\<close> without a NUL makes the C++ read past the array, and
  the model then gives the \<^verbatim>\<open>_MAX_PATH\<close> characters of the array.
\<close>

fun CpuArchitecture :: "'ulong_ptr host \<Rightarrow> string" where
  "CpuArchitecture (Windows w) =
     (case RegOpenKeyEx w of
        None \<Rightarrow> ''<unknown>''
      | Some hKey \<Rightarrow>
          (case ProcessorNameString hKey of
             None \<Rightarrow> ''<unknown>''
           | Some data \<Rightarrow> c_str (filled_buffer data)))"
| "CpuArchitecture (Unix u) =
     (let cpuinfo = read_stream (proc_cpuinfo u)
      in case regex_match_field ''model name'' cpuinfo of
           Some matches1 \<Rightarrow> matches1
         | None \<Rightarrow> ''<unknown>'')"

text \<open>
  The allocation loop of \<^verbatim>\<open>System::CpuTotalCores\<close>, \<^verbatim>\<open>while (!allocated)\<close>, run against
  the replies of the OS. It leaves with the filled buffer, or returns the failure pair
  from inside the loop (\<open>Failure\<close>); while the OS keeps answering
  \<^verbatim>\<open>ERROR_INSUFFICIENT_BUFFER\<close> it goes round again, and \<open>None\<close> says that the replies
  ended with the loop still running.
\<close>

datatype 'ulong_ptr allocation =
    Buffer "'ulong_ptr SYSTEM_LOGICAL_PROCESSOR_INFORMATION list"
  | Failure

fun allocation_loop :: "'ulong_ptr glpi_reply list \<Rightarrow> 'ulong_ptr allocation option" where
  "allocation_loop [] = None"
| "allocation_loop (Filled entries # replies) = Some (Buffer entries)"
| "allocation_loop (InsufficientBuffer Allocated # replies) = allocation_loop replies"
| "allocation_loop (InsufficientBuffer OutOfMemory # replies) = Some Failure"
| "allocation_loop (OtherError # replies) = Some Failure"

text \<open>
  The enumeration loop, \<^verbatim>\<open>while (dwOffset + sizeof(...) <= dwLength)\<close>: it visits the
  complete entries of the buffer in order, \<open>result\<close> being the pair of \<^verbatim>\<open>int\<close> counters.
  \<^verbatim>\<open>result.first += CountSetBits(...)\<close> adds a \<^verbatim>\<open>DWORD\<close> to an \<^verbatim>\<open>int\<close>, modulo \<open>2 ^ 32\<close>.
  The \<^verbatim>\<open>default\<close> label returns from inside the loop.
\<close>

fun enumeration_loop ::
  "'a::len word SYSTEM_LOGICAL_PROCESSOR_INFORMATION list \<Rightarrow> c_int \<times> c_int \<Rightarrow> c_int \<times> c_int" where
  "enumeration_loop [] result = result"
| "enumeration_loop (pCurrent # rest) result =
     (case Relationship pCurrent of
        RelationProcessorCore \<Rightarrow>
          enumeration_loop rest
            (fst result + CountSetBits (ProcessorMask pCurrent), snd result + 1)
      | RelationNumaNode \<Rightarrow> enumeration_loop rest result
      | RelationCache \<Rightarrow> enumeration_loop rest result
      | RelationProcessorPackage \<Rightarrow> enumeration_loop rest result
      | _ \<Rightarrow> (- 1, - 1))"

text \<open>
  \<^verbatim>\<open>System::CpuTotalCores\<close>: the pair (logical, physical), or \<open>None\<close> when the allocation
  loop does not come to an end. On Unix the \<^verbatim>\<open>long\<close> is narrowed to \<^verbatim>\<open>int\<close> twice.
\<close>

fun CpuTotalCores :: "'a::len word host \<Rightarrow> (c_int \<times> c_int) option" where
  "CpuTotalCores (Windows w) =
     (case allocation_loop (glpi_replies w) of
        None \<Rightarrow> None
      | Some Failure \<Rightarrow> Some (- 1, - 1)
      | Some (Buffer entries) \<Rightarrow> Some (enumeration_loop entries (0, 0)))"
| "CpuTotalCores (Unix u) =
     (let processors = sysconf_NPROCESSORS_ONLN u
      in Some (ucast processors, ucast processors))"

definition CpuLogicalCores :: "'a::len word host \<Rightarrow> c_int option" where
  "CpuLogicalCores h = map_option fst (CpuTotalCores h)"

definition CpuPhysicalCores :: "'a::len word host \<Rightarrow> c_int option" where
  "CpuPhysicalCores h = map_option snd (CpuTotalCores h)"

text \<open>
  \<^verbatim>\<open>System::CpuClockSpeed\<close>. On Windows \<^verbatim>\<open>dwMHz * 1000 * 1000\<close> is computed in \<^verbatim>\<open>DWORD\<close>
  and then widened, without sign, to \<^verbatim>\<open>int64_t\<close>. On Unix both arms of the conditional
  are \<^verbatim>\<open>int\<close>, widened with sign.
\<close>

fun CpuClockSpeed :: "'ulong_ptr host \<Rightarrow> int64_t" where
  "CpuClockSpeed (Windows w) =
     (case RegOpenKeyEx w of
        None \<Rightarrow> - 1
      | Some hKey \<Rightarrow>
          (case MHz hKey of
             None \<Rightarrow> - 1
           | Some dwMHz \<Rightarrow> ucast (dwMHz * 1000 * 1000)))"
| "CpuClockSpeed (Unix u) =
     (let cpuinfo = read_stream (proc_cpuinfo u)
      in case regex_match_field ''cpu MHz'' cpuinfo of
           Some matches1 \<Rightarrow> scast (atoi matches1)
         | None \<Rightarrow> scast (- 1 :: c_int))"

definition CpuHyperThreading :: "'a::len word host \<Rightarrow> bool option" where
  "CpuHyperThreading h =
     (case CpuTotalCores h of
        None \<Rightarrow> None
      | Some cores \<Rightarrow> Some (fst cores \<noteq> snd cores))"

text \<open>
  \<^verbatim>\<open>System::RamTotal\<close> and \<^verbatim>\<open>System::RamFree\<close>. On Windows the result of
  \<^verbatim>\<open>GlobalMemoryStatusEx\<close> is not looked at: \<^verbatim>\<open>status\<close> is what the call wrote, or what
  the variable held before. On Unix the conditional has the type \<^verbatim>\<open>unsigned long\<close>.
\<close>

fun RamTotal :: "'ulong_ptr host \<Rightarrow> int64_t" where
  "RamTotal (Windows w) =
     (let status = (case GlobalMemoryStatusEx w of
                      Some written \<Rightarrow> written
                    | None \<Rightarrow> uninitialised_status w)
      in ullTotalPhys status)"
| "RamTotal (Unix u) =
     (case sysinfo u of Some si \<Rightarrow> totalram si | None \<Rightarrow> - 1)"

fun RamFree :: "'ulong_ptr host \<Rightarrow> int64_t" where
  "RamFree (Windows w) =
     (let status = (case GlobalMemoryStatusEx w of
                      Some written \<Rightarrow> written
                    | None \<Rightarrow> uninitialised_status w)
      in ullAvailPhys status)"
| "RamFree (Unix u) =
     (case sysinfo u of Some si \<Rightarrow> freeram si | None \<Rightarrow> - 1)"

section \<open>The properties of the specification, as predicates\<close>

text \<open>
  The consistency of a pair of core counts as the specification words it: the logical
  count is at least the physical count, which is at least 0, or both are the sentinel.
\<close>

definition cores_consistent :: "c_int \<times> c_int \<Rightarrow> bool" where
  "cores_consistent cores =
     ((sint (snd cores) \<le> sint (fst cores) \<and> 0 \<le> sint (snd cores))
      \<or> (fst cores = - 1 \<and> snd cores = - 1))"

text \<open>
  What the operating systems document about the data the core enumeration reads. On
  Windows a processor-core entry names the logical processors of the core, so its mask
  has a bit set, and the buffer is small enough for the counters: the number of entries
  times the width of a mask stays below \<open>2 ^ 31\<close>. On Unix \<^verbatim>\<open>sysconf\<close> returns -1 or a
  count, and the count fits an \<^verbatim>\<open>int\<close>.
\<close>

definition core_entry_ok :: "'a::len word SYSTEM_LOGICAL_PROCESSOR_INFORMATION \<Rightarrow> bool" where
  "core_entry_ok e = (if Relationship e = RelationProcessorCore then ProcessorMask e \<noteq> 0 else True)"

fun reply_ok :: "'a::len word glpi_reply \<Rightarrow> bool" where
  "reply_ok (Filled entries) =
     (list_all core_entry_ok entries \<and> LENGTH('a) * length entries < 2 ^ 31)"
| "reply_ok (InsufficientBuffer m) = True"
| "reply_ok OtherError = True"

fun topology_as_documented :: "'a::len word host \<Rightarrow> bool" where
  "topology_as_documented (Windows w) = list_all reply_ok (glpi_replies w)"
| "topology_as_documented (Unix u) =
     (sysconf_NPROCESSORS_ONLN u = - 1
      \<or> (0 \<le> sint (sysconf_NPROCESSORS_ONLN u) \<and> sint (sysconf_NPROCESSORS_ONLN u) < 2 ^ 31))"

text \<open>
  The entries the \<^verbatim>\<open>switch\<close> of the enumeration loop has a label for, and among them the
  processor cores.
\<close>

definition relationship_recognised :: "'ulong_ptr SYSTEM_LOGICAL_PROCESSOR_INFORMATION \<Rightarrow> bool" where
  "relationship_recognised e =
     (Relationship e \<in> {RelationProcessorCore, RelationNumaNode, RelationCache, RelationProcessorPackage})"

definition is_processor_core :: "'ulong_ptr SYSTEM_LOGICAL_PROCESSOR_INFORMATION \<Rightarrow> bool" where
  "is_processor_core e = (Relationship e = RelationProcessorCore)"

section \<open>Example hosts\<close>

text \<open>
  A \<^verbatim>\<open>/proc/cpuinfo\<close> is a sequence of lines \<^verbatim>\<open>name<TAB>: value\<close>, each ended by a
  newline.
\<close>

definition cpuinfo_line :: "string \<Rightarrow> string \<Rightarrow> string" where
  "cpuinfo_line name val = name @ [CHR 0x09] @ '': '' @ val"

definition cpuinfo_text :: "string list \<Rightarrow> string" where
  "cpuinfo_text lines = concat (map (\<lambda>l. l @ [CHR 0x0A]) lines)"

definition linux_cpuinfo :: string where
  "linux_cpuinfo = cpuinfo_text
     [cpuinfo_line ''processor'' ''0'',
      cpuinfo_line ''vendor_id'' ''GenuineIntel'',
      cpuinfo_line ''model name'' ''Intel(R) Core(TM) i7-4790K CPU @ 4.00GHz'',
      cpuinfo_line ''cpu MHz'' ''4000.000'']"

definition linux_host :: unix_host where
  "linux_host =
     \<lparr>proc_cpuinfo = Some linux_cpuinfo,
      sysconf_NPROCESSORS_ONLN = 8,
      sysinfo = Some \<lparr>totalram = 17179869184, freeram = 8589934592\<rparr>\<rparr>"

text \<open>
  A 64-bit Windows machine with four cores of two logical processors each, one package,
  one NUMA node and a shared cache.
\<close>

definition four_cores_eight_threads :: "64 word SYSTEM_LOGICAL_PROCESSOR_INFORMATION list" where
  "four_cores_eight_threads =
     [SLPI RelationProcessorCore 0x03,
      SLPI RelationCache 0xFF,
      SLPI RelationProcessorCore 0x0C,
      SLPI RelationProcessorCore 0x30,
      SLPI RelationProcessorCore 0xC0,
      SLPI RelationProcessorPackage 0xFF,
      SLPI RelationNumaNode 0xFF]"

definition windows_host :: "64 word win_host" where
  "windows_host =
     \<lparr>RegOpenKeyEx = Some \<lparr>ProcessorNameString = Some ''Intel(R) Core(TM) i7-4790K CPU @ 4.00GHz'',
                           MHz = Some 4000\<rparr>,
      glpi_replies = [InsufficientBuffer Allocated, Filled four_cores_eight_threads],
      GlobalMemoryStatusEx = Some \<lparr>ullTotalPhys = 17179869184, ullAvailPhys = 8589934592\<rparr>,
      uninitialised_status = \<lparr>ullTotalPhys = 0xCCCCCCCCCCCCCCCC, ullAvailPhys = 0xCCCCCCCCCCCCCCCC\<rparr>\<rparr>"

section \<open>CountSetBits is the population count\<close>

declare CountSetBits_loop.simps [simp del]

lemma half_power_of_two:
  assumes "0 < k" and "k < LENGTH('a)"
  shows "((2::'a::len word) ^ k) div 2 = 2 ^ (k - 1)"
proof -
  have "(2::'a word) ^ k div 2 = drop_bit 1 ((2::'a word) ^ k)"
    by (simp add: drop_bit_eq_div)
  also have "\<dots> = 2 ^ (k - 1)"
    by (rule bit_word_eqI) (use assms in \<open>auto simp: bit_drop_bit_eq bit_exp_iff\<close>)
  finally show ?thesis .
qed

lemma mask_test_is_bit: "((m::'a::len word) AND 2 ^ k \<noteq> 0) = bit m k"
  by (simp add: and_exp_eq_0_iff_not_bit)

lemma bits_below_Suc:
  "{k. k < Suc j \<and> bit (m::'a::len word) k} =
     (if bit m j then insert j {k. k < j \<and> bit m k} else {k. k < j \<and> bit m k})"
  by (auto simp: less_Suc_eq)

text \<open>
  The loop invariant: when round \<open>i\<close> starts, \<open>pBitTest\<close> is the single bit \<open>n - i\<close>, and
  the rounds still to come count the set bits below \<open>Suc n - i\<close>.
\<close>

lemma CountSetBits_loop_counts:
  "i \<le> Suc n \<Longrightarrow> n < LENGTH('a) \<Longrightarrow> (i \<le> n \<Longrightarrow> t = 2 ^ (n - i)) \<Longrightarrow>
   CountSetBits_loop i n (m::'a::len word) t c = c + of_nat (card {k. k < Suc n - i \<and> bit m k})"
proof (induction i n m t c rule: CountSetBits_loop.induct)
  case (1 i n m t c)
  show ?case
  proof (cases "i \<le> n")
    case False
    with "1.prems" have "Suc n - i = 0" by simp
    with False show ?thesis by (simp add: CountSetBits_loop.simps)
  next
    case True
    then have t: "t = 2 ^ (n - i)" using "1.prems" by simp
    have next_t: "i + 1 \<le> n \<Longrightarrow> t div 2 = 2 ^ (n - (i + 1))"
      using half_power_of_two [of "n - i", where 'a='a] "1.prems"(2) t by simp
    have IH: "CountSetBits_loop (i + 1) n m (t div 2) (c + (if m AND t \<noteq> 0 then 1 else 0))
        = (c + (if m AND t \<noteq> 0 then 1 else 0)) + of_nat (card {k. k < Suc n - (i + 1) \<and> bit m k})"
      using "1.IH" [OF True] True "1.prems"(2) next_t by simp
    have S: "Suc n - i = Suc (n - i)" using True by simp
    have fin: "finite {k. k < n - i \<and> bit m k}" by simp
    show ?thesis
      using True IH fin
      by (subst CountSetBits_loop.simps) (simp add: t mask_test_is_bit S bits_below_Suc)
  qed
qed

lemma CountSetBits_of_nat: "CountSetBits (m::'a::len word) = of_nat (card {k. bit m k})"
proof -
  have "{k. k < LENGTH('a) \<and> bit m k} = {k. bit m k}"
    by (auto dest: bit_imp_le_length)
  then show ?thesis
    using CountSetBits_loop_counts [of 0 "LENGTH('a) - 1" "2 ^ (LENGTH('a) - 1)" m 0]
    by (simp add: CountSetBits_def Let_def)
qed

lemma card_bits_le: "card {k. bit (m::'a::len word) k} \<le> LENGTH('a)"
proof -
  have "{k. bit m k} \<subseteq> {..<LENGTH('a)}" by (auto dest: bit_imp_le_length)
  then have "card {k. bit m k} \<le> card {..<LENGTH('a)}" by (intro card_mono) simp_all
  then show ?thesis by simp
qed

lemma unat_CountSetBits:
  "LENGTH('a) < 2 ^ 32 \<Longrightarrow> unat (CountSetBits (m::'a::len word)) = card {k. bit m k}"
  using card_bits_le [of m] by (simp add: CountSetBits_of_nat of_nat_inverse)

section \<open>Facts about the text functions\<close>

text \<open>
  The language of the two patterns: the field name, white space, a colon and a blank, and
  a capture group without line terminators that reaches the end of the input.
\<close>

lemma not_isspace_colon: "\<not> isspace (CHR '':'')"
  by (simp add: isspace_def)

lemma regex_match_field_iff:
  "regex_match_field name s = Some g \<longleftrightarrow>
     (\<exists>ws. s = name @ ws @ '': '' @ g \<and> list_all isspace ws \<and> \<not> list_ex line_terminator g)"
proof
  assume m: "regex_match_field name s = Some g"
  then have pre: "take (length name) s = name"
    by (simp add: regex_match_field_def split: if_splits)
  define r where "r = drop (length name) s"
  from m pre have dw: "dropWhile isspace r = CHR '':'' # CHR '' '' # g" and g: "\<not> list_ex line_terminator g"
    by (auto simp: regex_match_field_def r_def split: list.splits if_splits)
  have "s = name @ r"
    using pre append_take_drop_id [of "length name" s] by (simp add: r_def)
  moreover have "r = takeWhile isspace r @ '': '' @ g"
    using takeWhile_dropWhile_id [of isspace r] dw by simp
  moreover have "list_all isspace (takeWhile isspace r)"
    by (simp add: list_all_iff) (meson set_takeWhileD)
  ultimately show "\<exists>ws. s = name @ ws @ '': '' @ g \<and> list_all isspace ws \<and> \<not> list_ex line_terminator g"
    using g by metis
next
  assume "\<exists>ws. s = name @ ws @ '': '' @ g \<and> list_all isspace ws \<and> \<not> list_ex line_terminator g"
  then obtain ws where s: "s = name @ ws @ '': '' @ g" and ws: "list_all isspace ws"
    and g: "\<not> list_ex line_terminator g" by blast
  have "dropWhile isspace (ws @ '': '' @ g) = '': '' @ g"
    using ws not_isspace_colon by (simp add: dropWhile_append3 list_all_iff)
  then show "regex_match_field name s = Some g"
    using g by (simp add: regex_match_field_def s)
qed

lemma takeWhile_padding:
  "takeWhile (\<lambda>c. c \<noteq> z) (xs @ replicate n z) = takeWhile (\<lambda>c. c \<noteq> z) xs"
proof (induction xs)
  case Nil
  show ?case by (cases n) simp_all
next
  case (Cons x xs)
  then show ?case by simp
qed

lemma c_str_filled_buffer: "c_str (filled_buffer d) = c_str (take MAX_PATH d)"
  unfolding c_str_def filled_buffer_def by (rule takeWhile_padding)

lemma c_str_take_empty: "0 < n \<Longrightarrow> c_str (take n d) = [] \<longleftrightarrow> c_str d = []"
  by (cases d; cases n) (auto simp: c_str_def)

lemma c_str_filled_buffer_empty: "c_str (filled_buffer d) = [] \<longleftrightarrow> c_str d = []"
  by (simp add: c_str_filled_buffer c_str_take_empty MAX_PATH_def)

section \<open>When the architecture string is empty\<close>

lemma CpuArchitecture_unix_empty:
  "CpuArchitecture (Unix u) = [] \<longleftrightarrow>
     (\<exists>ws. list_all isspace ws \<and> proc_cpuinfo u = Some (''model name'' @ ws @ '': ''))"
proof -
  have "CpuArchitecture (Unix u) = [] \<longleftrightarrow>
          regex_match_field ''model name'' (read_stream (proc_cpuinfo u)) = Some []"
    by (simp add: Let_def split: option.splits)
  also have "\<dots> \<longleftrightarrow> (\<exists>ws. read_stream (proc_cpuinfo u) = ''model name'' @ ws @ '': '' \<and> list_all isspace ws)"
    by (simp add: regex_match_field_iff)
  also have "\<dots> \<longleftrightarrow> (\<exists>ws. list_all isspace ws \<and> proc_cpuinfo u = Some (''model name'' @ ws @ '': ''))"
    by (cases "proc_cpuinfo u") (auto simp: read_stream_def)
  finally show ?thesis .
qed

lemma CpuArchitecture_windows_empty:
  "CpuArchitecture (Windows w) = [] \<longleftrightarrow>
     (\<exists>hKey d. RegOpenKeyEx w = Some hKey \<and> ProcessorNameString hKey = Some d \<and> c_str d = [])"
  by (auto simp: c_str_filled_buffer_empty split: option.splits)

section \<open>Facts about the core enumeration\<close>

lemma CountSetBits_pos:
  assumes "(m::'a::len word) \<noteq> 0" "LENGTH('a) < 2 ^ 32"
  shows "1 \<le> unat (CountSetBits m)" "unat (CountSetBits m) \<le> LENGTH('a)"
proof -
  from assms(1) obtain k where "bit m k" by (auto simp: bit_eq_iff)
  moreover have "finite {k. bit m k}" by simp
  ultimately have "0 < card {k. bit m k}" by (auto simp: card_gt_0_iff)
  then show "1 \<le> unat (CountSetBits m)" using assms(2) by (simp add: unat_CountSetBits)
  show "unat (CountSetBits m) \<le> LENGTH('a)" using assms(2) card_bits_le [of m] by (simp add: unat_CountSetBits)
qed

lemma CountSetBits_examples:
  "CountSetBits (0x03 :: 64 word) = 2" "CountSetBits (0x0C :: 64 word) = 2"
  "CountSetBits (0x30 :: 64 word) = 2" "CountSetBits (0xC0 :: 64 word) = 2"
  "CountSetBits (0x01 :: 64 word) = 1"
  by code_simp+

lemma card_bits_examples:
  "card {k. bit (0x03 :: 64 word) k} = 2" "card {k. bit (0x0C :: 64 word) k} = 2"
  "card {k. bit (0x30 :: 64 word) k} = 2" "card {k. bit (0xC0 :: 64 word) k} = 2"
  using unat_CountSetBits [of "0x03 :: 64 word"] unat_CountSetBits [of "0x0C :: 64 word"]
    unat_CountSetBits [of "0x30 :: 64 word"] unat_CountSetBits [of "0xC0 :: 64 word"]
  by (simp_all add: CountSetBits_examples)

text \<open>
  What the enumeration loop returns when every entry has a label of the \<^verbatim>\<open>switch\<close>: the
  logical counter has grown by the sum of the population counts of the masks of the
  processor-core entries, the physical counter by the number of those entries.
\<close>

lemma enumeration_loop_total:
  fixes entries :: "'a::len word SYSTEM_LOGICAL_PROCESSOR_INFORMATION list"
  assumes "list_all relationship_recognised entries"
  shows "enumeration_loop entries (l, p) =
           (l + of_nat (sum_list (map (\<lambda>e. card {k. bit (ProcessorMask e) k})
                                    (filter is_processor_core entries))),
            p + of_nat (length (filter is_processor_core entries)))"
  using assms
proof (induction entries arbitrary: l p)
  case Nil
  then show ?case by simp
next
  case (Cons e entries)
  then have rest: "list_all relationship_recognised entries"
    and e: "relationship_recognised e" by simp_all
  show ?case
  proof (cases "Relationship e")
    case RelationProcessorCore
    then show ?thesis
      using Cons.IH [OF rest] by (simp add: is_processor_core_def CountSetBits_of_nat algebra_simps)
  next
    case RelationNumaNode
    then show ?thesis using Cons.IH [OF rest] by (simp add: is_processor_core_def)
  next
    case RelationCache
    then show ?thesis using Cons.IH [OF rest] by (simp add: is_processor_core_def)
  next
    case RelationProcessorPackage
    then show ?thesis using Cons.IH [OF rest] by (simp add: is_processor_core_def)
  qed (use e in \<open>simp_all add: relationship_recognised_def\<close>)
qed

lemma allocation_loop_Buffer:
  "allocation_loop replies = Some (Buffer entries) \<Longrightarrow> Filled entries \<in> set replies"
  by (induction replies rule: allocation_loop.induct) auto

lemma enumeration_loop_unexpected:
  "\<exists>e\<in>set entries. Relationship e \<notin> {RelationProcessorCore, RelationNumaNode, RelationCache, RelationProcessorPackage}
   \<Longrightarrow> enumeration_loop entries result = (- 1, - 1)"
proof (induction entries arbitrary: result)
  case Nil
  then show ?case by simp
next
  case (Cons e entries)
  show ?case
  proof (cases "Relationship e \<in> {RelationProcessorCore, RelationNumaNode, RelationCache, RelationProcessorPackage}")
    case True
    with Cons.prems have "\<exists>e\<in>set entries. Relationship e \<notin> {RelationProcessorCore, RelationNumaNode, RelationCache, RelationProcessorPackage}"
      by auto
    from Cons.IH [OF this] True show ?thesis by (cases result) auto
  next
    case False
    then show ?thesis by (cases "Relationship e") simp_all
  qed
qed

lemma enumeration_loop_bounds:
  fixes entries :: "'a::len word SYSTEM_LOGICAL_PROCESSOR_INFORMATION list"
  assumes "list_all core_entry_ok entries"
    and "unat l + LENGTH('a) * length entries < 2 ^ 31"
    and "unat p \<le> unat l"
  shows "enumeration_loop entries (l, p) = (- 1, - 1)
         \<or> (unat (snd (enumeration_loop entries (l, p))) \<le> unat (fst (enumeration_loop entries (l, p)))
            \<and> unat (fst (enumeration_loop entries (l, p))) < 2 ^ 31)"
  using assms
proof (induction entries arbitrary: l p)
  case Nil
  then show ?case by simp
next
  case (Cons e entries)
  have L: "LENGTH('a) < 2 ^ 32" using Cons.prems(2) by simp
  have ok: "list_all core_entry_ok entries" using Cons.prems(1) by simp
  have room: "unat l + LENGTH('a) + LENGTH('a) * length entries < 2 ^ 31"
    using Cons.prems(2) by (simp add: algebra_simps)
  show ?case
  proof (cases "Relationship e")
    case RelationProcessorCore
    then have nz: "ProcessorMask e \<noteq> 0" using Cons.prems(1) by (simp add: core_entry_ok_def)
    define c where "c = CountSetBits (ProcessorMask e)"
    have c: "1 \<le> unat c" "unat c \<le> LENGTH('a)"
      using CountSetBits_pos [OF nz L] by (simp_all add: c_def)
    have ul: "unat (l + c) = unat l + unat c"
      using room c by (simp add: unat_add_lem [THEN iffD1])
    have up: "unat (p + 1) = unat p + 1"
      using room Cons.prems(3) by (simp add: unat_add_lem [THEN iffD1])
    have "unat (l + c) + LENGTH('a) * length entries < 2 ^ 31" using ul c room by simp
    moreover have "unat (p + 1) \<le> unat (l + c)" using ul up c Cons.prems(3) by simp
    ultimately show ?thesis
      using Cons.IH [OF ok, of "l + c" "p + 1"] RelationProcessorCore by (simp add: c_def)
  next
    case RelationNumaNode
    then show ?thesis using Cons.IH [OF ok, of l p] room Cons.prems(3) by simp
  next
    case RelationCache
    then show ?thesis using Cons.IH [OF ok, of l p] room Cons.prems(3) by simp
  next
    case RelationProcessorPackage
    then show ?thesis using Cons.IH [OF ok, of l p] room Cons.prems(3) by simp
  qed simp_all
qed

lemma sint_eq_unat: "unat (x::c_int) < 2 ^ 31 \<Longrightarrow> sint x = int (unat x)"
proof -
  assume a: "unat x < 2 ^ 31"
  have "int (unat x) < int (2 ^ 31)" using a by (rule iffD2 [OF of_nat_less_iff])
  then have lt: "uint x < 2 ^ 31" by simp
  have "- (2 ^ 31) \<le> (0::int)" by simp
  then have ge: "- (2 ^ 31) \<le> uint x"
    using uint_nonnegative [of x] by (rule order_trans)
  have "signed_take_bit 31 (uint x) = uint x"
    using ge lt by (rule signed_take_bit_int_eq_self)
  then show ?thesis by (simp add: sint_uint)
qed

lemma narrow_long:
  assumes "- (2 ^ 31) \<le> sint (n::c_long)" and "sint n < 2 ^ 31"
  shows "sint (ucast n :: c_int) = sint n"
proof -
  have "sint (ucast n :: c_int) = signed_take_bit 31 (uint n)"
    by (simp add: signed_ucast_eq)
  also have "\<dots> = signed_take_bit 31 (signed_take_bit 63 (uint n))"
    by (simp add: signed_take_bit_signed_take_bit)
  also have "\<dots> = signed_take_bit 31 (sint n)"
    by (simp add: sint_uint)
  also have "\<dots> = sint n"
    using assms by (rule signed_take_bit_int_eq_self)
  finally show ?thesis .
qed

lemma CpuHyperThreading_Some:
  "CpuTotalCores h = Some (l, p) \<Longrightarrow> CpuHyperThreading h = Some (l \<noteq> p)"
  by (simp add: CpuHyperThreading_def)

lemma narrow_minus_one: "(ucast (- 1 :: c_long) :: c_int) = - 1"
  by (rule bit_word_eqI) (simp add: bit_simps)

section \<open>The example hosts, evaluated\<close>

lemma CpuTotalCores_other_error:
  "CpuTotalCores (Windows (windows_host\<lparr>glpi_replies := [OtherError]\<rparr>)) = Some (- 1, - 1)"
  by simp

lemma CpuTotalCores_windows_host: "CpuTotalCores (Windows windows_host) = Some (8, 4)"
  by (simp add: windows_host_def four_cores_eight_threads_def CountSetBits_examples)

lemma CpuTotalCores_single_core:
  "CpuTotalCores (Windows (windows_host\<lparr>glpi_replies :=
      [InsufficientBuffer Allocated, Filled [SLPI RelationProcessorCore 0x01]]\<rparr>)) = Some (1, 1)"
  by (simp add: CountSetBits_examples)

lemma topology_windows_host: "topology_as_documented (Windows windows_host)"
  by (simp add: windows_host_def four_cores_eight_threads_def core_entry_ok_def)

section \<open>The claims\<close>

text \<open>
  C1. The clock speed is not the frequency in MHz times 1,000,000 on every host. On
  Windows, with a registry value of 4500 MHz the product wraps in \<^verbatim>\<open>DWORD\<close> and the result is
  205,032,704. On Unix a file that consists of the line \<^verbatim>\<open>cpu MHz<TAB>: 2400.000\<close> gives
  2400, the number of MHz itself; a value that is not a number gives 0; and the four-line
  \<^verbatim>\<open>/proc/cpuinfo\<close> with a \<^verbatim>\<open>cpu MHz\<close> line of 4000.000 gives -1.
\<close>

theorem CpuClockSpeed_not_MHz_times_million:
  "sint (CpuClockSpeed (Windows (windows_host\<lparr>RegOpenKeyEx :=
      Some \<lparr>ProcessorNameString = Some ''AMD Ryzen 9 7950X 16-Core Processor'', MHz = Some 4500\<rparr>\<rparr>)))
     = 205032704
   \<and> sint (CpuClockSpeed (Unix (linux_host\<lparr>proc_cpuinfo :=
        Some (cpuinfo_line ''cpu MHz'' ''2400.000'')\<rparr>) :: 64 word host)) = 2400
   \<and> sint (CpuClockSpeed (Unix (linux_host\<lparr>proc_cpuinfo :=
        Some (cpuinfo_line ''cpu MHz'' ''unknown'')\<rparr>) :: 64 word host)) = 0
   \<and> sint (CpuClockSpeed (Unix linux_host :: 64 word host)) = - 1"
  by code_simp

text \<open>
  C2. On every host whose OS data is as documented (on Windows every processor-core entry
  has a bit set in its mask and the counters cannot overflow; on Unix \<^verbatim>\<open>sysconf\<close>
  returns -1 or a count that fits an \<^verbatim>\<open>int\<close>), every pair that \<^verbatim>\<open>CpuTotalCores\<close> returns
  has logical \<open>\<ge>\<close> physical \<open>\<ge>\<close> 0, or is (-1, -1): no outcome has the sentinel in one
  component and a count in the other.
\<close>

theorem CpuTotalCores_consistent:
  assumes "topology_as_documented h" and "CpuTotalCores h = Some cores"
  shows "cores_consistent cores"
proof (cases h)
  case (Windows w)
  show ?thesis
  proof (cases "allocation_loop (glpi_replies w)")
    case None
    with Windows assms(2) show ?thesis by simp
  next
    case (Some a)
    show ?thesis
    proof (cases a)
      case Failure
      with Some Windows assms(2) show ?thesis by (auto simp: cores_consistent_def)
    next
      case (Buffer entries)
      with Some have mem: "Filled entries \<in> set (glpi_replies w)"
        by (simp add: allocation_loop_Buffer)
      have "\<forall>r\<in>set (glpi_replies w). reply_ok r"
        using assms(1) Windows by (simp add: list_all_iff)
      then have "reply_ok (Filled entries)"
        using mem by (rule bspec)
      then have ok: "list_all core_entry_ok entries"
        and room: "unat (0::c_int) + LENGTH('a) * length entries < 2 ^ 31"
        by simp_all
      have cores: "cores = enumeration_loop entries (0, 0)"
        using Buffer Some Windows assms(2) by simp
      from enumeration_loop_bounds [OF ok room, of 0]
      have "cores = (- 1, - 1) \<or> (unat (snd cores) \<le> unat (fst cores) \<and> unat (fst cores) < 2 ^ 31)"
        by (simp add: cores)
      then show ?thesis
      proof
        assume "cores = (- 1, - 1)"
        then show ?thesis by (simp add: cores_consistent_def)
      next
        assume b: "unat (snd cores) \<le> unat (fst cores) \<and> unat (fst cores) < 2 ^ 31"
        then have "sint (fst cores) = int (unat (fst cores))" "sint (snd cores) = int (unat (snd cores))"
          by (simp_all add: sint_eq_unat)
        moreover from b have "snd cores \<le> fst cores"
          by (simp add: word_le_nat_alt)
        then have "int (unat (snd cores)) \<le> int (unat (fst cores))"
          by (simp add: word_le_def)
        ultimately show ?thesis by (simp add: cores_consistent_def)
      qed
    qed
  qed
next
  case (Unix u)
  define n where "n = sysconf_NPROCESSORS_ONLN u"
  have cores: "cores = (ucast n, ucast n)"
    using Unix assms(2) by (auto simp: n_def Let_def)
  from assms(1) Unix consider "n = - 1" | "0 \<le> sint n" "sint n < 2 ^ 31"
    by (auto simp: n_def)
  then show ?thesis
  proof cases
    case 1
    then show ?thesis by (simp add: cores cores_consistent_def narrow_minus_one)
  next
    case 2
    then have "sint (ucast n :: c_int) = sint n"
      by (intro narrow_long) simp_all
    with 2 show ?thesis by (simp add: cores cores_consistent_def)
  qed
qed

theorem CpuTotalCores_consistent_witness:
  "topology_as_documented (Windows windows_host)
   \<and> CpuTotalCores (Windows windows_host) = Some (8, 4)
   \<and> cores_consistent (8, 4)"
  using CpuTotalCores_consistent [OF topology_windows_host CpuTotalCores_windows_host]
    topology_windows_host CpuTotalCores_windows_host
  by simp

text \<open>
  C3. For every pair (logical, physical) that \<^verbatim>\<open>CpuTotalCores\<close> returns,
  \<^verbatim>\<open>CpuHyperThreading\<close> returns true exactly when the two components differ, and false when
  they are equal.
\<close>

theorem CpuHyperThreading_iff_counts_differ:
  assumes "CpuTotalCores h = Some (logical, physical)"
  shows "(CpuHyperThreading h = Some True \<longleftrightarrow> logical \<noteq> physical)
         \<and> (logical = physical \<longrightarrow> CpuHyperThreading h = Some False)"
  using CpuHyperThreading_Some [OF assms] by auto

theorem CpuHyperThreading_iff_counts_differ_witness:
  "CpuTotalCores (Windows windows_host) = Some (8, 4)
   \<and> CpuHyperThreading (Windows windows_host) = Some True
   \<and> CpuTotalCores (Windows (windows_host\<lparr>glpi_replies :=
        [InsufficientBuffer Allocated, Filled [SLPI RelationProcessorCore 0x01]]\<rparr>)) = Some (1, 1)
   \<and> CpuHyperThreading (Windows (windows_host\<lparr>glpi_replies :=
        [InsufficientBuffer Allocated, Filled [SLPI RelationProcessorCore 0x01]]\<rparr>)) = Some False"
  using CpuHyperThreading_iff_counts_differ [OF CpuTotalCores_windows_host]
    CpuHyperThreading_iff_counts_differ [OF CpuTotalCores_single_core]
    CpuTotalCores_windows_host CpuTotalCores_single_core
  by simp

text \<open>
  C4. On Windows, when the allocation loop has left with a buffer and some entry of the
  buffer carries a relationship other than processor core, NUMA node, cache or package,
  \<^verbatim>\<open>CpuTotalCores\<close> returns the pair (-1, -1), whatever the entries before it added to
  the counters.
\<close>

theorem CpuTotalCores_unexpected_relationship:
  assumes "allocation_loop (glpi_replies w) = Some (Buffer entries)"
    and "\<exists>e\<in>set entries. Relationship e \<notin>
           {RelationProcessorCore, RelationNumaNode, RelationCache, RelationProcessorPackage}"
  shows "CpuTotalCores (Windows w) = Some (- 1, - 1)"
  using assms by (simp add: enumeration_loop_unexpected)

theorem CpuTotalCores_unexpected_relationship_witness:
  "allocation_loop
     [InsufficientBuffer Allocated,
      Filled [SLPI RelationProcessorCore (0x03 :: 64 word), SLPI RelationGroup 0, SLPI RelationProcessorCore 0x0C]]
     = Some (Buffer [SLPI RelationProcessorCore 0x03, SLPI RelationGroup 0, SLPI RelationProcessorCore 0x0C])
   \<and> CpuTotalCores (Windows (windows_host\<lparr>glpi_replies :=
         [InsufficientBuffer Allocated,
          Filled [SLPI RelationProcessorCore 0x03, SLPI RelationGroup 0, SLPI RelationProcessorCore 0x0C]]\<rparr>))
       = Some (- 1, - 1)"
  using CpuTotalCores_unexpected_relationship
    [of "windows_host\<lparr>glpi_replies :=
         [InsufficientBuffer Allocated,
          Filled [SLPI RelationProcessorCore 0x03, SLPI RelationGroup 0, SLPI RelationProcessorCore 0x0C]]\<rparr>"
        "[SLPI RelationProcessorCore 0x03, SLPI RelationGroup 0, SLPI RelationProcessorCore 0x0C]"]
  by simp

text \<open>
  C5. The line \<^verbatim>\<open>model name<TAB>: Intel(R) Core(TM) i7-4790K CPU @ 4.00GHz\<close> alone matches
  the pattern, with the processor name as the matched text. Yet for the four-line
  \<^verbatim>\<open>/proc/cpuinfo\<close> that holds this line, and for the file that holds only this line and
  its newline, \<^verbatim>\<open>CpuArchitecture\<close> returns \<^verbatim>\<open><unknown>\<close>: the pattern is matched against
  the whole content, not against a line.
\<close>

theorem CpuArchitecture_unknown_on_cpuinfo:
  "regex_match_field ''model name'' (cpuinfo_line ''model name'' ''Intel(R) Core(TM) i7-4790K CPU @ 4.00GHz'')
     = Some ''Intel(R) Core(TM) i7-4790K CPU @ 4.00GHz''
   \<and> CpuArchitecture (Unix linux_host :: 64 word host) = ''<unknown>''
   \<and> CpuArchitecture (Unix (linux_host\<lparr>proc_cpuinfo := Some (cpuinfo_text
        [cpuinfo_line ''model name'' ''Intel(R) Core(TM) i7-4790K CPU @ 4.00GHz''])\<rparr>) :: 64 word host)
       = ''<unknown>''"
  by code_simp

text \<open>
  C6, as stated, fails: \<^verbatim>\<open>CpuArchitecture\<close> returns the empty string on Unix when the file
  is \<^verbatim>\<open>model name<TAB>: \<close> with nothing after the blank, and on Windows when the data of
  \<^verbatim>\<open>ProcessorNameString\<close> is empty.
\<close>

theorem CpuArchitecture_empty_counterexample:
  "CpuArchitecture (Unix (linux_host\<lparr>proc_cpuinfo := Some (cpuinfo_line ''model name'' [])\<rparr>) :: 64 word host) = []
   \<and> CpuArchitecture (Windows (windows_host\<lparr>RegOpenKeyEx :=
        Some \<lparr>ProcessorNameString = Some [], MHz = Some 4000\<rparr>\<rparr>)) = []"
  by code_simp

text \<open>
  C6, amended. \<^verbatim>\<open>CpuArchitecture\<close> returns the empty string exactly when the descriptor the
  OS gives is itself empty: on Windows the key opens, the value is read and its text (the
  characters before the first NUL) is empty; on Unix the content of the file is
  \<^verbatim>\<open>model name\<close>, white space, a colon and a blank, and nothing more. In every other state
  the result is not empty.
\<close>

theorem CpuArchitecture_empty_iff:
  "CpuArchitecture h = [] \<longleftrightarrow>
     (case h of
        Windows w \<Rightarrow>
          (\<exists>hKey d. RegOpenKeyEx w = Some hKey \<and> ProcessorNameString hKey = Some d \<and> c_str d = [])
      | Unix u \<Rightarrow>
          (\<exists>ws. list_all isspace ws \<and> proc_cpuinfo u = Some (''model name'' @ ws @ '': '')))"
  by (cases h) (simp_all only: host.case CpuArchitecture_windows_empty CpuArchitecture_unix_empty)

theorem CpuArchitecture_empty_iff_witness:
  "CpuArchitecture (Windows windows_host) \<noteq> []
   \<and> CpuArchitecture (Windows (windows_host\<lparr>RegOpenKeyEx :=
        Some \<lparr>ProcessorNameString = Some [], MHz = Some 4000\<rparr>\<rparr>)) = []"
  using CpuArchitecture_empty_iff [of "Windows windows_host"]
    CpuArchitecture_empty_iff [of "Windows (windows_host\<lparr>RegOpenKeyEx :=
        Some \<lparr>ProcessorNameString = Some [], MHz = Some 4000\<rparr>\<rparr>)"]
  by (simp add: windows_host_def c_str_def)

text \<open>
  C7. On Unix \<^verbatim>\<open>CpuTotalCores\<close> always returns a pair of two equal components, each the
  result of \<^verbatim>\<open>sysconf(_SC_NPROCESSORS_ONLN)\<close> narrowed to \<^verbatim>\<open>int\<close>, which is the number of
  online processors itself whenever that number fits an \<^verbatim>\<open>int\<close>.
\<close>

theorem CpuTotalCores_unix_online_processors:
  "\<exists>n. CpuTotalCores (Unix u) = Some (n, n)
       \<and> n = ucast (sysconf_NPROCESSORS_ONLN u)
       \<and> (- (2 ^ 31) \<le> sint (sysconf_NPROCESSORS_ONLN u) \<and> sint (sysconf_NPROCESSORS_ONLN u) < 2 ^ 31
            \<longrightarrow> sint n = sint (sysconf_NPROCESSORS_ONLN u))"
  by (simp add: Let_def narrow_long)

theorem CpuTotalCores_unix_online_processors_witness:
  "CpuTotalCores (Unix linux_host :: 64 word host) = Some (8, 8)"
  using CpuTotalCores_unix_online_processors [of linux_host, where 'a=64]
  by (simp add: linux_host_def)

text \<open>
  C8. On Windows, when \<^verbatim>\<open>GlobalMemoryStatusEx\<close> fails, \<^verbatim>\<open>RamTotal\<close> and \<^verbatim>\<open>RamFree\<close> return
  what the uninitialised \<^verbatim>\<open>status\<close> held, here the fill pattern \<^verbatim>\<open>0xCC...CC\<close>, not -1. On
  Unix, when \<^verbatim>\<open>sysinfo\<close> fails, both return -1.
\<close>

theorem RamTotal_ignores_failure:
  "RamTotal (Windows (windows_host\<lparr>GlobalMemoryStatusEx := None\<rparr>)) = 0xCCCCCCCCCCCCCCCC
   \<and> RamFree (Windows (windows_host\<lparr>GlobalMemoryStatusEx := None\<rparr>)) = 0xCCCCCCCCCCCCCCCC
   \<and> (0xCCCCCCCCCCCCCCCC :: int64_t) \<noteq> - 1
   \<and> RamTotal (Unix (linux_host\<lparr>sysinfo := None\<rparr>) :: 64 word host) = - 1
   \<and> RamFree (Unix (linux_host\<lparr>sysinfo := None\<rparr>) :: 64 word host) = - 1"
  by (simp add: windows_host_def)

text \<open>
  C9. For every 64-bit and every 32-bit mask, \<^verbatim>\<open>CountSetBits\<close> returns exactly the
  number of set bits of the mask. So, for masks of any width: when every entry of the
  buffer has a label of the \<^verbatim>\<open>switch\<close>, the enumeration loop adds to the logical counter the
  sum of the numbers of set bits of the masks of all processor-core entries, and to the
  physical counter the number of those entries; and \<^verbatim>\<open>CpuTotalCores\<close> on Windows returns
  these two totals.
\<close>

theorem CountSetBits_population_count:
  "unat (CountSetBits (m64 :: 64 word)) = card {k. bit m64 k}
   \<and> unat (CountSetBits (m32 :: 32 word)) = card {k. bit m32 k}
   \<and> (list_all relationship_recognised (entries :: 'a::len word SYSTEM_LOGICAL_PROCESSOR_INFORMATION list)
        \<longrightarrow> enumeration_loop entries (logical, physical) =
              (logical + of_nat (sum_list (map (\<lambda>e. card {k. bit (ProcessorMask e) k})
                                             (filter is_processor_core entries))),
               physical + of_nat (length (filter is_processor_core entries))))
   \<and> (allocation_loop (glpi_replies w) = Some (Buffer entries)
          \<and> list_all relationship_recognised entries
        \<longrightarrow> CpuTotalCores (Windows w) =
              Some (of_nat (sum_list (map (\<lambda>e. card {k. bit (ProcessorMask e) k})
                                          (filter is_processor_core entries))),
                    of_nat (length (filter is_processor_core entries))))"
proof -
  have "unat (CountSetBits m64) = card {k. bit m64 k}"
    by (rule unat_CountSetBits) simp
  moreover have "unat (CountSetBits m32) = card {k. bit m32 k}"
    by (rule unat_CountSetBits) simp
  moreover have "list_all relationship_recognised entries
        \<longrightarrow> enumeration_loop entries (logical, physical) =
              (logical + of_nat (sum_list (map (\<lambda>e. card {k. bit (ProcessorMask e) k})
                                             (filter is_processor_core entries))),
               physical + of_nat (length (filter is_processor_core entries)))"
    by (simp add: enumeration_loop_total)
  moreover have "allocation_loop (glpi_replies w) = Some (Buffer entries)
          \<and> list_all relationship_recognised entries
        \<longrightarrow> CpuTotalCores (Windows w) =
              Some (of_nat (sum_list (map (\<lambda>e. card {k. bit (ProcessorMask e) k})
                                          (filter is_processor_core entries))),
                    of_nat (length (filter is_processor_core entries)))"
    by (simp add: enumeration_loop_total)
  ultimately show ?thesis by blast
qed

theorem CountSetBits_population_count_witness:
  "allocation_loop (glpi_replies windows_host) = Some (Buffer four_cores_eight_threads)
   \<and> list_all relationship_recognised four_cores_eight_threads
   \<and> enumeration_loop four_cores_eight_threads (0, 0) = (8, 4)
   \<and> CpuTotalCores (Windows windows_host) = Some (8, 4)"
  using CountSetBits_population_count
    [of _ _ four_cores_eight_threads 0 0 windows_host]
  by (simp add: windows_host_def four_cores_eight_threads_def card_bits_examples
        relationship_recognised_def is_processor_core_def)

text \<open>
  C10. When \<^verbatim>\<open>CpuTotalCores\<close> returns the sentinel pair (-1, -1), \<^verbatim>\<open>CpuHyperThreading\<close>
  returns false, the answer it also gives for a machine with one core and one logical
  processor.
\<close>

theorem CpuHyperThreading_on_failure:
  assumes "CpuTotalCores h = Some (- 1, - 1)"
  shows "CpuHyperThreading h = Some False"
  using CpuHyperThreading_Some [OF assms] by simp

theorem CpuHyperThreading_on_failure_witness:
  "CpuTotalCores (Windows (windows_host\<lparr>glpi_replies := [OtherError]\<rparr>)) = Some (- 1, - 1)
   \<and> CpuHyperThreading (Windows (windows_host\<lparr>glpi_replies := [OtherError]\<rparr>)) = Some False
   \<and> CpuHyperThreading (Windows (windows_host\<lparr>glpi_replies :=
        [InsufficientBuffer Allocated, Filled [SLPI RelationProcessorCore 0x01]]\<rparr>)) = Some False"
  using CpuHyperThreading_on_failure [OF CpuTotalCores_other_error] CpuTotalCores_other_error
    CpuHyperThreading_Some [OF CpuTotalCores_single_core]
  by simp

end
